theory Spec2Isabelle
  imports Complex_Main "HOL-Library.Word"
begin

unbundle bit_operations_syntax

section \<open>The platform: what the C library and the kernel decide\<close>

text \<open>
  \<^verbatim>\<open>p3.cpp\<close> is a straight-line driver around calls into the C library
  (\<^verbatim>\<open>mlockall\<close>, \<^verbatim>\<open>pthread_create\<close>, \<^verbatim>\<open>pthread_join\<close>, \<^verbatim>\<open>gettimeofday\<close>,
  \<^verbatim>\<open>atoi\<close>, \<^verbatim>\<open>strerror\<close>). Their answers are not decided by the program, so
  they are the fields of a record that every operation takes as its first
  argument. What the program does with the answers is modelled below, call
  by call.
\<close>

text \<open>\<^verbatim>\<open>struct timeval\<close>: both fields are 64-bit signed on the target.\<close>

record timeval =
  tv_sec :: "64 word"
  tv_usec :: "64 word"

record platform =
  atoi :: "string \<Rightarrow> int"
  mlockall_ret :: int
  errno :: int
  strerror :: "int \<Rightarrow> string"
  create_ret :: "nat \<Rightarrow> int"
  new_tid :: "nat \<Rightarrow> nat"
  join_ret :: "nat \<Rightarrow> int"
  clock :: "nat \<Rightarrow> timeval"
  to_double :: "real \<Rightarrow> real"
  sched_getcpu :: "nat \<Rightarrow> int"
  pthread_getschedparam :: "nat \<Rightarrow> int \<times> int \<times> int"
  default_stacksize :: nat

text \<open>
  \<open>create_ret os k\<close> is the return value of the \<open>k\<close>-th call of
  \<^verbatim>\<open>pthread_create\<close> and \<open>new_tid os k\<close> the thread id it stores on success;
  \<open>join_ret os t\<close> is the return value of \<^verbatim>\<open>pthread_join\<close> on thread \<open>t\<close>;
  \<open>clock os k\<close> is what the \<open>k\<close>-th call of \<^verbatim>\<open>gettimeofday\<close> stores;
  \<open>to_double os\<close> rounds a real number to the nearest \<^verbatim>\<open>double\<close>;
  \<open>pthread_getschedparam os t\<close> is (return value, policy, priority).
\<close>

text \<open>Constants of the system headers (Linux values).\<close>

definition SCHED_OTHER :: int where "SCHED_OTHER = 0"
definition SCHED_FIFO :: int where "SCHED_FIFO = 1"
definition SCHED_RR :: int where "SCHED_RR = 2"
definition PTHREAD_INHERIT_SCHED :: int where "PTHREAD_INHERIT_SCHED = 0"
definition PTHREAD_EXPLICIT_SCHED :: int where "PTHREAD_EXPLICIT_SCHED = 1"
definition MCL_CURRENT :: int where "MCL_CURRENT = 1"
definition MCL_FUTURE :: int where "MCL_FUTURE = 2"
definition EINVAL :: int where "EINVAL = 22"

text \<open>
  \<^verbatim>\<open>sched_get_priority_min\<close> and \<^verbatim>\<open>sched_get_priority_max\<close> on Linux: the
  real-time policies have the priorities 1 to 99, the other policies
  (3 is \<^verbatim>\<open>SCHED_BATCH\<close>, 5 \<^verbatim>\<open>SCHED_IDLE\<close>, 6 \<^verbatim>\<open>SCHED_DEADLINE\<close>) only 0, and
  an unknown policy gives \<open>- 1\<close>.
\<close>

definition sched_get_priority_min :: "int \<Rightarrow> int" where
  "sched_get_priority_min policy =
     (if policy = SCHED_FIFO \<or> policy = SCHED_RR then 1
      else if policy = SCHED_OTHER \<or> policy = 3 \<or> policy = 5 \<or> policy = 6 then 0
      else - 1)"

definition sched_get_priority_max :: "int \<Rightarrow> int" where
  "sched_get_priority_max policy =
     (if policy = SCHED_FIFO \<or> policy = SCHED_RR then 99
      else if policy = SCHED_OTHER \<or> policy = 3 \<or> policy = 5 \<or> policy = 6 then 0
      else - 1)"

text \<open>\<^verbatim>\<open>#define SET_CPU false\<close>\<close>

definition SET_CPU :: bool where "SET_CPU = False"

section \<open>Data\<close>

text \<open>
  The two handle classes. A constructor initialises \<^verbatim>\<open>app_id_\<close> (and, for
  \<^verbatim>\<open>ThreadRT\<close>, \<^verbatim>\<open>priority_\<close> and \<^verbatim>\<open>policy_\<close>) and leaves \<^verbatim>\<open>thread_\<close> and
  \<^verbatim>\<open>start_time\<close> indeterminate: \<open>None\<close> below. The field names carry the
  class as a prefix, since both classes have an \<^verbatim>\<open>app_id_\<close>, a \<^verbatim>\<open>thread_\<close>
  and a \<^verbatim>\<open>start_time\<close>.
\<close>

record ThreadRT =
  rt_priority :: int
  rt_policy :: int
  rt_thread :: "nat option"
  rt_start_time :: "timeval option"
  rt_app_id :: int

record ThreadNRT =
  nrt_thread :: "nat option"
  nrt_start_time :: "timeval option"
  nrt_app_id :: int

datatype app = AppX ThreadRT | AppY ThreadNRT

text \<open>\<^verbatim>\<open>pthread_attr_t\<close>, as far as \<^verbatim>\<open>ThreadRT::Start\<close> touches it.\<close>

record pthread_attr =
  schedpolicy :: int
  sched_priority :: int
  stacksize :: nat
  inheritsched :: int

datatype arg = ArgInt int | ArgULong nat | ArgDouble real

text \<open>What a spawned thread does, in its own order.\<close>

datatype taction =
    Setaffinity "nat set"
  | TPrintf string "arg list"
  | BusyCal

text \<open>
  What the main thread does, in order: its library calls, its output, and
  the entries into the handles' constructors and methods. \<open>Thread_run t as\<close>
  stands for the whole run of the thread that a successful
  \<^verbatim>\<open>pthread_create\<close> has spawned: \<open>as\<close> is that thread's own sequence of
  actions, which the kernel interleaves with the main thread's.
\<close>

datatype event =
    Fprintf_stderr string "arg list"
  | Printf string "arg list"
  | Mlockall int
  | Gettimeofday timeval
  | Pthread_create "pthread_attr option" int
  | Thread_run nat "taction list"
  | Pthread_attr_destroy
  | Pthread_join nat
  | Constructed app
  | Start_called int
  | Join_called int

record world =
  trace :: "event list"
  n_time :: nat
  n_create :: nat

definition world0 :: world where
  "world0 = \<lparr>trace = [], n_time = 0, n_create = 0\<rparr>"

text \<open>
  \<^verbatim>\<open>std::runtime_error\<close> with its message; \<open>Undefined_behaviour\<close> is a read of
  a field that no \<^verbatim>\<open>Start()\<close> has written.
\<close>

datatype error = Runtime_error string | Undefined_behaviour

text \<open>How the process ends: \<^verbatim>\<open>return\<close> from \<^verbatim>\<open>main\<close>, or an uncaught exception.\<close>

datatype outcome = Exit int | Terminated error

section \<open>Primitives\<close>

definition log :: "event \<Rightarrow> world \<Rightarrow> world" where
  "log e w = w\<lparr>trace := trace w @ [e]\<rparr>"

definition printf :: "string \<Rightarrow> arg list \<Rightarrow> world \<Rightarrow> world" where
  "printf fmt args w = log (Printf fmt args) w"

definition gettimeofday :: "platform \<Rightarrow> world \<Rightarrow> timeval \<times> world" where
  "gettimeofday os w =
     (let t = clock os (n_time w)
      in (t, (log (Gettimeofday t) w)\<lparr>n_time := Suc (n_time w)\<rparr>))"

text \<open>
  \<^verbatim>\<open>pthread_create(&thread_, attr, start_routine, this)\<close>: \<open>body t\<close> is what
  \<^verbatim>\<open>start_routine(this)\<close> does when it runs as thread \<open>t\<close>. Returns the return
  value and, on success, the new thread id.
\<close>

definition pthread_create ::
  "platform \<Rightarrow> pthread_attr option \<Rightarrow> (nat \<Rightarrow> taction list) \<Rightarrow> world \<Rightarrow> (int \<times> nat option) \<times> world" where
  "pthread_create os attr body w =
     (let k = n_create w;
          ret = create_ret os k;
          w1 = (log (Pthread_create attr ret) w)\<lparr>n_create := Suc k\<rparr>
      in if ret = 0
         then ((ret, Some (new_tid os k)), log (Thread_run (new_tid os k) (body (new_tid os k))) w1)
         else ((ret, None), w1))"

text \<open>Sequencing of calls that may throw: the first exception ends the sequence.\<close>

definition and_then ::
  "(error + 'a) \<times> world \<Rightarrow> ('a \<Rightarrow> world \<Rightarrow> (error + 'b) \<times> world) \<Rightarrow> (error + 'b) \<times> world" where
  "and_then r k = (case r of (Inl e, w) \<Rightarrow> (Inl e, w) | (Inr a, w) \<Rightarrow> k a w)"

section \<open>The program\<close>

definition LockMemory :: "platform \<Rightarrow> world \<Rightarrow> (error + unit) \<times> world" where
  "LockMemory os w =
     (let w1 = log (Mlockall (MCL_CURRENT OR MCL_FUTURE)) w;
          ret = mlockall_ret os
      in if ret \<noteq> 0
         then (Inl (Runtime_error (''mlockall failed: '' @ strerror os (errno os))), w1)
         else (Inr (), w1))"

text \<open>
  \<^verbatim>\<open>setCPU\<close> runs in the calling thread: it builds the set \<open>{cpu_id}\<close> and
  passes it to \<^verbatim>\<open>pthread_setaffinity_np\<close>, whose return value it drops.
\<close>

definition setCPU :: "nat \<Rightarrow> taction list" where
  "setCPU cpu_id = [Setaffinity {cpu_id}]"

definition AppTypeX_Run :: "ThreadRT \<Rightarrow> taction list" where
  "AppTypeX_Run h = [TPrintf ''Running App #%d...\<newline>'' [ArgInt (rt_app_id h)], BusyCal]"

definition AppTypeY_Run :: "ThreadNRT \<Rightarrow> taction list" where
  "AppTypeY_Run h = [TPrintf ''Running App #%d...\<newline>'' [ArgInt (nrt_app_id h)], BusyCal]"

definition RunThreadRT :: "platform \<Rightarrow> ThreadRT \<Rightarrow> nat \<Rightarrow> taction list" where
  "RunThreadRT os h self =
     (if SET_CPU then setCPU 1 else []) @
     [TPrintf ''[RT thread #%lu] running on CPU #%d\<newline>'' [ArgULong self, ArgInt (sched_getcpu os self)]] @
     (case pthread_getschedparam os self of (ret, policy, prio) \<Rightarrow>
        if ret = 0
        then [TPrintf ''[RT thread #%lu] Scheduling policy: '' [],
              (if policy = SCHED_FIFO then TPrintf ''SCHED_FIFO '' []
               else if policy = SCHED_RR then TPrintf ''SCHED_RR '' []
               else TPrintf ''Other policy '' []),
              TPrintf ''with priority %d\<newline>'' [ArgInt prio]]
        else [TPrintf ''[RT thread #%lu] Failed to get scheduling parameters\<newline>'' [ArgULong self]]) @
     AppTypeX_Run h"

definition RunThreadNRT :: "platform \<Rightarrow> ThreadNRT \<Rightarrow> nat \<Rightarrow> taction list" where
  "RunThreadNRT os h self =
     (if SET_CPU then setCPU 1 else []) @
     [TPrintf ''[NRT thread #%lu] running on CPU #%d\<newline>'' [ArgULong self, ArgInt (sched_getcpu os self)]] @
     AppTypeY_Run h"

text \<open>The constructors.\<close>

definition AppTypeX :: "int \<Rightarrow> int \<Rightarrow> int \<Rightarrow> ThreadRT" where
  "AppTypeX app_id priority policy =
     \<lparr>rt_priority = priority, rt_policy = policy, rt_thread = None,
      rt_start_time = None, rt_app_id = app_id\<rparr>"

definition AppTypeY :: "int \<Rightarrow> ThreadNRT" where
  "AppTypeY app_id = \<lparr>nrt_thread = None, nrt_start_time = None, nrt_app_id = app_id\<rparr>"

text \<open>
  \<^verbatim>\<open>pthread_attr_init\<close> and the four setters. The C library checks what
  it is given: \<^verbatim>\<open>pthread_attr_setschedpolicy\<close> takes \<^verbatim>\<open>SCHED_OTHER\<close>,
  \<^verbatim>\<open>SCHED_FIFO\<close> and \<^verbatim>\<open>SCHED_RR\<close> only, \<^verbatim>\<open>pthread_attr_setschedparam\<close> takes
  a priority only if it lies in the range of the policy that the attributes
  hold at that moment; otherwise they return \<^verbatim>\<open>EINVAL\<close> and leave the
  attributes as they were. Both return their error code with the
  attributes. The other two setters are called with constants only
  (\<^verbatim>\<open>1024 * 1024\<close> and \<^verbatim>\<open>PTHREAD_EXPLICIT_SCHED\<close>), which the library stores.
\<close>

definition pthread_attr_init :: "platform \<Rightarrow> pthread_attr" where
  "pthread_attr_init os =
     \<lparr>schedpolicy = SCHED_OTHER, sched_priority = 0,
      stacksize = default_stacksize os, inheritsched = PTHREAD_INHERIT_SCHED\<rparr>"

definition pthread_attr_setschedpolicy :: "int \<Rightarrow> pthread_attr \<Rightarrow> int \<times> pthread_attr" where
  "pthread_attr_setschedpolicy policy a =
     (if policy \<noteq> SCHED_OTHER \<and> policy \<noteq> SCHED_FIFO \<and> policy \<noteq> SCHED_RR
      then (EINVAL, a)
      else (0, a\<lparr>schedpolicy := policy\<rparr>))"

definition pthread_attr_setschedparam :: "int \<Rightarrow> pthread_attr \<Rightarrow> int \<times> pthread_attr" where
  "pthread_attr_setschedparam pr a =
     (let min = sched_get_priority_min (schedpolicy a);
          max = sched_get_priority_max (schedpolicy a)
      in if 0 \<le> min \<and> 0 \<le> max \<and> min \<le> pr \<and> pr \<le> max
         then (0, a\<lparr>sched_priority := pr\<rparr>)
         else (EINVAL, a))"

definition pthread_attr_setstacksize :: "nat \<Rightarrow> pthread_attr \<Rightarrow> pthread_attr" where
  "pthread_attr_setstacksize n a = a\<lparr>stacksize := n\<rparr>"

definition pthread_attr_setinheritsched :: "int \<Rightarrow> pthread_attr \<Rightarrow> pthread_attr" where
  "pthread_attr_setinheritsched i a = a\<lparr>inheritsched := i\<rparr>"

text \<open>
  \<^verbatim>\<open>ThreadRT::Start\<close>. The return values of the setters are dropped (\<open>snd\<close>
  keeps the attributes).
\<close>

definition ThreadRT_Start :: "platform \<Rightarrow> ThreadRT \<Rightarrow> world \<Rightarrow> (error + ThreadRT) \<times> world" where
  "ThreadRT_Start os h w0 =
     (let w = log (Start_called (rt_app_id h)) w0;
          thread_attr = pthread_attr_init os;
          thread_attr = snd (pthread_attr_setschedpolicy (rt_policy h) thread_attr);
          thread_attr = snd (pthread_attr_setschedparam (rt_priority h) thread_attr);
          thread_attr = pthread_attr_setstacksize (1024 * 1024) thread_attr;
          thread_attr = pthread_attr_setinheritsched PTHREAD_EXPLICIT_SCHED thread_attr;
          (t, w) = gettimeofday os w;
          h = h\<lparr>rt_start_time := Some t\<rparr>;
          ((ret, tid), w) = pthread_create os (Some thread_attr) (RunThreadRT os h) w
      in if ret \<noteq> 0
         then (Inl (Runtime_error (''pthread_create failed: '' @ strerror os ret)), w)
         else (Inr (h\<lparr>rt_thread := tid\<rparr>), log Pthread_attr_destroy w))"

text \<open>
  The elapsed time of \<^verbatim>\<open>Join()\<close>: two \<^verbatim>\<open>long\<close> subtractions, then
  \<^verbatim>\<open>seconds + micros * 1e-6\<close> in \<^verbatim>\<open>double\<close>: both conversions, the literal,
  the product and the sum are rounded.
\<close>

definition elapsed_time :: "platform \<Rightarrow> timeval \<Rightarrow> timeval \<Rightarrow> real" where
  "elapsed_time os start_time end_time =
     (let seconds = tv_sec end_time - tv_sec start_time;
          micros = tv_usec end_time - tv_usec start_time;
          rd = to_double os
      in rd (rd (of_int (sint seconds)) + rd (rd (of_int (sint micros)) * rd (1 / 10 ^ 6))))"

definition ThreadRT_Join :: "platform \<Rightarrow> ThreadRT \<Rightarrow> world \<Rightarrow> (error + unit) \<times> world" where
  "ThreadRT_Join os h w0 =
     (let w = log (Join_called (rt_app_id h)) w0
      in case rt_thread h of
           None \<Rightarrow> (Inl Undefined_behaviour, w)
         | Some thread \<Rightarrow>
             (let w = log (Pthread_join thread) w;
                  ret = join_ret os thread
              in if ret \<noteq> 0
                 then (Inl (Runtime_error (''pthread_join failed: '' @ strerror os ret)), w)
                 else
                   (let (end_time, w) = gettimeofday os w
                    in case rt_start_time h of
                         None \<Rightarrow> (Inl Undefined_behaviour, w)
                       | Some start_time \<Rightarrow>
                           (let elapsed = elapsed_time os start_time end_time;
                                w = printf ''App #%d runtime: %f seconds\<newline>''
                                      [ArgInt (rt_app_id h), ArgDouble elapsed] w;
                                w = printf ''[RT thread #%lu] App #%d Ends\<newline>''
                                      [ArgULong thread, ArgInt (rt_app_id h)] w
                            in (Inr (), w)))))"

definition ThreadNRT_Start :: "platform \<Rightarrow> ThreadNRT \<Rightarrow> world \<Rightarrow> (error + ThreadNRT) \<times> world" where
  "ThreadNRT_Start os h w0 =
     (let w = log (Start_called (nrt_app_id h)) w0;
          (t, w) = gettimeofday os w;
          h = h\<lparr>nrt_start_time := Some t\<rparr>;
          ((ret, tid), w) = pthread_create os None (RunThreadNRT os h) w
      in if ret \<noteq> 0
         then (Inl (Runtime_error (''pthread_create failed: '' @ strerror os ret)), w)
         else (Inr (h\<lparr>nrt_thread := tid\<rparr>), w))"

definition ThreadNRT_Join :: "platform \<Rightarrow> ThreadNRT \<Rightarrow> world \<Rightarrow> (error + unit) \<times> world" where
  "ThreadNRT_Join os h w0 =
     (let w = log (Join_called (nrt_app_id h)) w0
      in case nrt_thread h of
           None \<Rightarrow> (Inl Undefined_behaviour, w)
         | Some thread \<Rightarrow>
             (let w = log (Pthread_join thread) w;
                  (end_time, w) = gettimeofday os w
              in case nrt_start_time h of
                   None \<Rightarrow> (Inl Undefined_behaviour, w)
                 | Some start_time \<Rightarrow>
                     (let elapsed = elapsed_time os start_time end_time;
                          w = printf ''App #%d runtime: %f seconds\<newline>''
                                [ArgInt (nrt_app_id h), ArgDouble elapsed] w;
                          w = printf ''[NRT thread #%lu] App #%d Ends\<newline>''
                                [ArgULong thread, ArgInt (nrt_app_id h)] w
                      in (Inr (), w))))"

text \<open>
  \<^verbatim>\<open>main\<close>: \<open>argv\<close> is the argument vector (\<open>argc = length argv\<close>). An
  exception that leaves a branch is not caught: the process terminates.
\<close>

definition main :: "platform \<Rightarrow> string list \<Rightarrow> outcome \<times> world" where
  "main os argv =
     (let (exp_id, w) =
            (if length argv < 2
             then (4, log (Fprintf_stderr ''WARNING: default exp_id=0\<newline>'' []) world0)
             else (atoi os (argv ! 1), world0));
          r = and_then (LockMemory os w) (\<lambda>_ w.
            if exp_id = 0 then
              (let w = printf ''Experiment 1: One CannyP3 APP (RT) and Two any-type APPs (NRT), All running on CPU=1\<newline>'' [] w;
                   app1 = AppTypeX 1 80 SCHED_FIFO; w = log (Constructed (AppX app1)) w;
                   app2 = AppTypeY 2; w = log (Constructed (AppY app2)) w;
                   app3 = AppTypeY 3; w = log (Constructed (AppY app3)) w
               in and_then (ThreadRT_Start os app1 w) (\<lambda>app1 w.
                  and_then (ThreadNRT_Start os app2 w) (\<lambda>app2 w.
                  and_then (ThreadNRT_Start os app3 w) (\<lambda>app3 w.
                  and_then (ThreadRT_Join os app1 w) (\<lambda>_ w.
                  and_then (ThreadNRT_Join os app2 w) (\<lambda>_ w.
                  and_then (ThreadNRT_Join os app3 w) (\<lambda>_ w. (Inr 0, w))))))))
            else if exp_id = 1 then
              (let w = printf ''Experiment 2: Same workload as 1, but freely run on available CPUs\<newline>'' [] w;
                   app1 = AppTypeX 1 80 SCHED_FIFO; w = log (Constructed (AppX app1)) w;
                   app2 = AppTypeY 2; w = log (Constructed (AppY app2)) w;
                   app3 = AppTypeY 3; w = log (Constructed (AppY app3)) w
               in and_then (ThreadRT_Start os app1 w) (\<lambda>app1 w.
                  and_then (ThreadNRT_Start os app2 w) (\<lambda>app2 w.
                  and_then (ThreadNRT_Start os app3 w) (\<lambda>app3 w.
                  and_then (ThreadRT_Join os app1 w) (\<lambda>_ w.
                  and_then (ThreadNRT_Join os app2 w) (\<lambda>_ w.
                  and_then (ThreadNRT_Join os app3 w) (\<lambda>_ w. (Inr 0, w))))))))
            else if exp_id = 2 then
              (let w = printf ''Experiment 3: Two any-type APPs (same priority, SCHED_FIFO) in RT and One any-type APP (NRT), All running on CPU=1\<newline>'' [] w;
                   app1 = AppTypeX 1 80 SCHED_FIFO; w = log (Constructed (AppX app1)) w;
                   app2 = AppTypeX 2 80 SCHED_FIFO; w = log (Constructed (AppX app2)) w;
                   app3 = AppTypeY 3; w = log (Constructed (AppY app3)) w
               in and_then (ThreadRT_Start os app1 w) (\<lambda>app1 w.
                  and_then (ThreadRT_Start os app2 w) (\<lambda>app2 w.
                  and_then (ThreadNRT_Start os app3 w) (\<lambda>app3 w.
                  and_then (ThreadRT_Join os app1 w) (\<lambda>_ w.
                  and_then (ThreadRT_Join os app2 w) (\<lambda>_ w.
                  and_then (ThreadNRT_Join os app3 w) (\<lambda>_ w. (Inr 0, w))))))))
            else if exp_id = 3 then
              (let w = printf ''Experiment 4: Two any-type APPs (same priority, SCHED_RR) in RT and One any-type APP (NRT), All running on CPU=1\<newline>'' [] w;
                   app1 = AppTypeX 1 80 SCHED_RR; w = log (Constructed (AppX app1)) w;
                   app2 = AppTypeX 2 80 SCHED_RR; w = log (Constructed (AppX app2)) w;
                   app3 = AppTypeY 3; w = log (Constructed (AppY app3)) w
               in and_then (ThreadRT_Start os app1 w) (\<lambda>app1 w.
                  and_then (ThreadRT_Start os app2 w) (\<lambda>app2 w.
                  and_then (ThreadNRT_Start os app3 w) (\<lambda>app3 w.
                  and_then (ThreadRT_Join os app1 w) (\<lambda>_ w.
                  and_then (ThreadRT_Join os app2 w) (\<lambda>_ w.
                  and_then (ThreadNRT_Join os app3 w) (\<lambda>_ w. (Inr 0, w))))))))
            else if exp_id = 4 then
              (let w = printf ''Experiment 5: Same workload as 3, but freely run on available CPUs\<newline>'' [] w;
                   app1 = AppTypeX 1 80 SCHED_FIFO; w = log (Constructed (AppX app1)) w;
                   app2 = AppTypeX 2 80 SCHED_FIFO; w = log (Constructed (AppX app2)) w;
                   app3 = AppTypeY 3; w = log (Constructed (AppY app3)) w
               in and_then (ThreadRT_Start os app1 w) (\<lambda>app1 w.
                  and_then (ThreadRT_Start os app2 w) (\<lambda>app2 w.
                  and_then (ThreadNRT_Start os app3 w) (\<lambda>app3 w.
                  and_then (ThreadRT_Join os app1 w) (\<lambda>_ w.
                  and_then (ThreadRT_Join os app2 w) (\<lambda>_ w.
                  and_then (ThreadNRT_Join os app3 w) (\<lambda>_ w. (Inr 0, w))))))))
            else (Inr 0, printf ''ERROR: exp_id NOT FOUND\<newline>'' [] w))
      in case r of
           (Inl e, w) \<Rightarrow> (Terminated e, w)
         | (Inr rc, w) \<Rightarrow> (Exit rc, w))"

section \<open>Observations on a run\<close>

text \<open>The value of \<^verbatim>\<open>exp_id\<close> when \<^verbatim>\<open>main\<close> reaches \<^verbatim>\<open>LockMemory()\<close>.\<close>

definition selected :: "platform \<Rightarrow> string list \<Rightarrow> int" where
  "selected os argv = (if length argv < 2 then 4 else atoi os (argv ! 1))"

text \<open>The handles constructed, in order.\<close>

fun constructed :: "event list \<Rightarrow> app list" where
  "constructed [] = []"
| "constructed (Constructed a # es) = a # constructed es"
| "constructed (_ # es) = constructed es"

text \<open>The entries into \<^verbatim>\<open>Start()\<close> and \<^verbatim>\<open>Join()\<close>, in order.\<close>

fun calls :: "event list \<Rightarrow> event list" where
  "calls [] = []"
| "calls (Start_called i # es) = Start_called i # calls es"
| "calls (Join_called i # es) = Join_called i # calls es"
| "calls (_ # es) = calls es"

text \<open>The threads spawned: thread id and the thread's own actions.\<close>

fun spawned :: "event list \<Rightarrow> (nat \<times> taction list) list" where
  "spawned [] = []"
| "spawned (Thread_run t as # es) = (t, as) # spawned es"
| "spawned (_ # es) = spawned es"

text \<open>
  The affinity a thread has asked for when it has done the actions \<open>as\<close>:
  the argument of its last \<^verbatim>\<open>pthread_setaffinity_np\<close>, \<open>None\<close> when it has
  made no such call and so runs wherever the scheduler puts it.
\<close>

fun affinity_after :: "nat set option \<Rightarrow> taction list \<Rightarrow> nat set option" where
  "affinity_after a [] = a"
| "affinity_after a (Setaffinity s # as) = affinity_after (Some s) as"
| "affinity_after a (_ # as) = affinity_after a as"

definition affinity :: "nat \<times> taction list \<Rightarrow> nat set option" where
  "affinity th = affinity_after None (snd th)"

text \<open>The calls of \<^verbatim>\<open>mlockall\<close>.\<close>

fun mlockalls :: "event list \<Rightarrow> int list" where
  "mlockalls [] = []"
| "mlockalls (Mlockall f # es) = f # mlockalls es"
| "mlockalls (_ # es) = mlockalls es"

text \<open>
  \<open>lock_first locked es\<close>: in \<open>es\<close>, every entry into \<^verbatim>\<open>Start()\<close>, every
  \<^verbatim>\<open>pthread_create\<close> and every spawned thread comes after a call of
  \<^verbatim>\<open>mlockall\<close> (\<open>locked\<close> says whether one has been made before \<open>es\<close>).
\<close>

fun lock_first :: "bool \<Rightarrow> event list \<Rightarrow> bool" where
  "lock_first locked [] = True"
| "lock_first locked (Mlockall f # es) = lock_first True es"
| "lock_first locked (Start_called i # es) = (locked \<and> lock_first locked es)"
| "lock_first locked (Pthread_create a r # es) = (locked \<and> lock_first locked es)"
| "lock_first locked (Thread_run t as # es) = (locked \<and> lock_first locked es)"
| "lock_first locked (_ # es) = lock_first locked es"

text \<open>What the program writes to standard output and to standard error.\<close>

fun stdout :: "event list \<Rightarrow> (string \<times> arg list) list" where
  "stdout [] = []"
| "stdout (Printf fmt args # es) = (fmt, args) # stdout es"
| "stdout (_ # es) = stdout es"

fun stderr :: "event list \<Rightarrow> (string \<times> arg list) list" where
  "stderr [] = []"
| "stderr (Fprintf_stderr fmt args # es) = (fmt, args) # stderr es"
| "stderr (_ # es) = stderr es"

text \<open>
  The scheduling configuration of the specification, read off a handle: the
  kind, and for a real-time handle the requested priority and policy.
\<close>

datatype kind = RealTime | Standard

fun spec_of :: "app \<Rightarrow> kind \<times> (int \<times> int) option" where
  "spec_of (AppX h) = (RealTime, Some (rt_priority h, rt_policy h))"
| "spec_of (AppY h) = (Standard, None)"

fun app_id_of :: "app \<Rightarrow> int" where
  "app_id_of (AppX h) = rt_app_id h"
| "app_id_of (AppY h) = nrt_app_id h"

section \<open>A concrete platform\<close>

text \<open>
  \<^verbatim>\<open>atoi\<close> on the strings used below: optional sign, then decimal digits up
  to the first other character.
\<close>

fun atoi_digits :: "int \<Rightarrow> string \<Rightarrow> int" where
  "atoi_digits acc [] = acc"
| "atoi_digits acc (c # cs) =
     (let d = (of_char c :: nat)
      in if 48 \<le> d \<and> d \<le> 57 then atoi_digits (10 * acc + int d - 48) cs else acc)"

fun atoi_decimal :: "string \<Rightarrow> int" where
  "atoi_decimal [] = 0"
| "atoi_decimal (c # cs) =
     (if c = CHR ''-'' then - atoi_digits 0 cs
      else if c = CHR ''+'' then atoi_digits 0 cs
      else atoi_digits 0 (c # cs))"

text \<open>
  Every call succeeds; the clock advances by 0.25 s per reading; rounding
  is exact.
\<close>

definition os_ok :: platform where
  "os_ok =
     \<lparr>atoi = atoi_decimal, mlockall_ret = 0, errno = 0,
      strerror = (\<lambda>e. if e = 1 then ''Operation not permitted''
                       else if e = 3 then ''No such process''
                       else if e = 11 then ''Resource temporarily unavailable''
                       else if e = 12 then ''Cannot allocate memory''
                       else ''Unknown error''),
      create_ret = (\<lambda>k. 0), new_tid = (\<lambda>k. 100 + k), join_ret = (\<lambda>t. 0),
      clock = (\<lambda>k. \<lparr>tv_sec = 1000 + of_nat (k div 4), tv_usec = 250000 * of_nat (k mod 4)\<rparr>),
      to_double = (\<lambda>x. x), sched_getcpu = (\<lambda>t. 0),
      pthread_getschedparam = (\<lambda>t. (0, 1, 80)), default_stacksize = 8388608\<rparr>"

text \<open>\<^verbatim>\<open>pthread_join\<close> on thread \<open>t\<close> fails with \<^verbatim>\<open>ESRCH\<close>; all else as above.\<close>

definition os_join_fails :: "nat \<Rightarrow> platform" where
  "os_join_fails t = os_ok\<lparr>join_ret := (\<lambda>u. if u = t then 3 else 0)\<rparr>"

text \<open>\<^verbatim>\<open>pthread_create\<close> fails with \<^verbatim>\<open>EAGAIN\<close>; all else as above.\<close>

definition os_create_fails :: platform where
  "os_create_fails = os_ok\<lparr>create_ret := (\<lambda>k. 11)\<rparr>"

text \<open>\<^verbatim>\<open>mlockall\<close> is denied with \<^verbatim>\<open>EPERM\<close>; all else as above.\<close>

definition os_lock_denied :: platform where
  "os_lock_denied = os_ok\<lparr>mlockall_ret := - 1, errno := 1\<rparr>"

section \<open>Timestamps and rounding\<close>

text \<open>
  What \<^verbatim>\<open>gettimeofday\<close> stores: seconds since the epoch and a microsecond
  part below one million.
\<close>

definition timeval_valid :: "timeval \<Rightarrow> bool" where
  "timeval_valid tv \<longleftrightarrow>
     0 \<le> sint (tv_sec tv) \<and> 0 \<le> sint (tv_usec tv) \<and> sint (tv_usec tv) < 1000000"

text \<open>Wall-clock order of two timestamps.\<close>

definition timeval_le :: "timeval \<Rightarrow> timeval \<Rightarrow> bool" where
  "timeval_le s e \<longleftrightarrow>
     sint (tv_sec s) < sint (tv_sec e) \<or>
     (sint (tv_sec s) = sint (tv_sec e) \<and> sint (tv_usec s) \<le> sint (tv_usec e))"

text \<open>
  What is used of rounding to \<^verbatim>\<open>double\<close>: it is monotone, it leaves the
  integers up to \<open>2 ^ 53\<close> alone, and on the normal range its relative error
  is at most \<open>1 / 2 ^ 53\<close>. IEEE 754 round-to-nearest has all three.
\<close>

definition double_rounding :: "(real \<Rightarrow> real) \<Rightarrow> bool" where
  "double_rounding rd \<longleftrightarrow>
     (\<forall>x y. x \<le> y \<longrightarrow> rd x \<le> rd y) \<and>
     (\<forall>n::int. \<bar>n\<bar> \<le> 2 ^ 53 \<longrightarrow> rd (of_int n) = of_int n) \<and>
     (\<forall>x. 1 / 2 ^ 1022 \<le> \<bar>x\<bar> \<and> \<bar>x\<bar> \<le> 2 ^ 1023 \<longrightarrow> \<bar>rd x - x\<bar> \<le> \<bar>x\<bar> / 2 ^ 53)"

section \<open>Events by the phase of the run\<close>

text \<open>
  \<open>after_lock\<close>: what may follow the call of \<^verbatim>\<open>mlockall\<close>. \<open>in_method\<close>: what
  \<^verbatim>\<open>Start()\<close> and \<^verbatim>\<open>Join()\<close> log. A spawned thread is admitted only if it
  asks for no affinity.
\<close>

fun after_lock :: "event \<Rightarrow> bool" where
  "after_lock (Mlockall f) = False"
| "after_lock (Fprintf_stderr fmt args) = False"
| "after_lock (Thread_run t as) = (affinity (t, as) = None)"
| "after_lock _ = True"

fun in_method :: "event \<Rightarrow> bool" where
  "in_method (Constructed a) = False"
| "in_method (Printf fmt args) = (fmt \<noteq> ''ERROR: exp_id NOT FOUND\<newline>'')"
| "in_method e = after_lock e"

text \<open>\<open>appends p w w'\<close>: the trace of \<open>w'\<close> is that of \<open>w\<close> and then events in \<open>p\<close>.\<close>

definition appends :: "(event \<Rightarrow> bool) \<Rightarrow> world \<Rightarrow> world \<Rightarrow> bool" where
  "appends p w w' \<longleftrightarrow>
     take (length (trace w)) (trace w') = trace w \<and>
     list_all p (drop (length (trace w)) (trace w'))"

text \<open>The world in which \<^verbatim>\<open>LockMemory()\<close> returns or throws.\<close>

definition lock_world :: "string list \<Rightarrow> world" where
  "lock_world argv =
     log (Mlockall (MCL_CURRENT OR MCL_FUTURE))
       (if length argv < 2 then log (Fprintf_stderr ''WARNING: default exp_id=0\<newline>'' []) world0
        else world0)"

section \<open>Lemmas on traces\<close>

lemmas prog_defs = main_def and_then_def LockMemory_def ThreadRT_Start_def ThreadRT_Join_def
  ThreadNRT_Start_def ThreadNRT_Join_def pthread_create_def gettimeofday_def printf_def log_def
  world0_def AppTypeX_def AppTypeY_def selected_def

text \<open>
  To run the program on given answers, the simplifier works from the outside
  in: it settles what a call returns before it looks at what follows.
\<close>

lemma and_then_weak_cong: "r = r' \<Longrightarrow> and_then r k = and_then r' k"
  by simp

lemma mlockalls_append: "mlockalls (xs @ ys) = mlockalls xs @ mlockalls ys"
  by (induction xs rule: mlockalls.induct) simp_all

lemma stderr_append: "stderr (xs @ ys) = stderr xs @ stderr ys"
  by (induction xs rule: stderr.induct) simp_all

lemma stdout_append: "stdout (xs @ ys) = stdout xs @ stdout ys"
  by (induction xs rule: stdout.induct) simp_all

lemma spawned_append: "spawned (xs @ ys) = spawned xs @ spawned ys"
  by (induction xs rule: spawned.induct) simp_all

lemma constructed_append: "constructed (xs @ ys) = constructed xs @ constructed ys"
  by (induction xs rule: constructed.induct) simp_all

lemma in_method_after_lock: "in_method e \<Longrightarrow> after_lock e"
  by (cases e) simp_all

lemma after_lock_mlockalls: "list_all after_lock es \<Longrightarrow> mlockalls es = []"
  by (induction es rule: mlockalls.induct) simp_all

lemma after_lock_stderr: "list_all after_lock es \<Longrightarrow> stderr es = []"
  by (induction es rule: stderr.induct) simp_all

lemma after_lock_spawned:
  "list_all after_lock es \<Longrightarrow> th \<in> set (spawned es) \<Longrightarrow> affinity th = None"
  by (induction es rule: spawned.induct) auto

lemma in_method_constructed: "list_all in_method es \<Longrightarrow> constructed es = []"
  by (induction es rule: constructed.induct) simp_all

lemma in_method_stdout:
  "list_all in_method es \<Longrightarrow> (''ERROR: exp_id NOT FOUND\<newline>'', args) \<notin> set (stdout es)"
  by (induction es rule: stdout.induct) auto

lemma lock_first_True: "lock_first True es"
  by (induction es rule: mlockalls.induct) simp_all

subsection \<open>Appending\<close>

lemma appends_iff: "appends p w w' \<longleftrightarrow> (\<exists>es. trace w' = trace w @ es \<and> list_all p es)"
proof
  assume "appends p w w'"
  then have "trace w' = trace w @ drop (length (trace w)) (trace w')"
    and "list_all p (drop (length (trace w)) (trace w'))"
    unfolding appends_def by (metis append_take_drop_id, simp)
  then show "\<exists>es. trace w' = trace w @ es \<and> list_all p es" by blast
next
  assume "\<exists>es. trace w' = trace w @ es \<and> list_all p es"
  then show "appends p w w'" by (auto simp: appends_def)
qed

lemma appends_refl: "appends p w w"
  by (simp add: appends_def)

lemma appends_trans: "appends p w0 w \<Longrightarrow> appends p w w' \<Longrightarrow> appends p w0 w'"
  by (auto simp: appends_iff)

lemma appends_mono: "(\<And>e. p e \<Longrightarrow> q e) \<Longrightarrow> appends p w w' \<Longrightarrow> appends q w w'"
  by (auto simp: appends_iff list_all_iff)

lemma appends_log: "p e \<Longrightarrow> appends p w0 w \<Longrightarrow> appends p w0 (log e w)"
  by (auto simp: appends_iff log_def)

lemma appends_printf: "p (Printf fmt args) \<Longrightarrow> appends p w0 w \<Longrightarrow> appends p w0 (printf fmt args w)"
  by (simp add: printf_def appends_log)

lemma appends_and_then:
  assumes "appends p w0 (snd r)" and "\<And>a w. appends p w0 w \<Longrightarrow> appends p w0 (snd (k a w))"
  shows "appends p w0 (snd (and_then r k))"
proof (cases r)
  case (Pair x w)
  with assms show ?thesis by (cases x) (simp_all add: and_then_def)
qed

subsection \<open>What the methods log\<close>

lemma affinity_RunThreadRT: "affinity (t, RunThreadRT os h t) = None"
  by (simp add: affinity_def RunThreadRT_def SET_CPU_def AppTypeX_Run_def split: prod.splits)

lemma affinity_RunThreadNRT: "affinity (t, RunThreadNRT os h t) = None"
  by (simp add: affinity_def RunThreadNRT_def SET_CPU_def AppTypeY_Run_def split: prod.splits)

lemma ThreadRT_Start_step: "appends in_method w (snd (ThreadRT_Start os h w))"
  by (simp add: appends_def ThreadRT_Start_def pthread_create_def gettimeofday_def log_def Let_def
      affinity_RunThreadRT)

lemma ThreadNRT_Start_step: "appends in_method w (snd (ThreadNRT_Start os h w))"
  by (simp add: appends_def ThreadNRT_Start_def pthread_create_def gettimeofday_def log_def Let_def
      affinity_RunThreadNRT)

lemma ThreadRT_Join_step: "appends in_method w (snd (ThreadRT_Join os h w))"
  by (simp add: appends_def ThreadRT_Join_def gettimeofday_def log_def printf_def Let_def
      split: option.splits)

lemma ThreadNRT_Join_step: "appends in_method w (snd (ThreadNRT_Join os h w))"
  by (simp add: appends_def ThreadNRT_Join_def gettimeofday_def log_def printf_def Let_def
      split: option.splits)

lemma method_appends:
  assumes "\<And>e. in_method e \<Longrightarrow> p e" and "appends p w0 w"
  shows "appends p w0 (snd (ThreadRT_Start os hx w))"
    and "appends p w0 (snd (ThreadNRT_Start os hy w))"
    and "appends p w0 (snd (ThreadRT_Join os hx w))"
    and "appends p w0 (snd (ThreadNRT_Join os hy w))"
  using assms(2) appends_mono [of in_method p, OF assms(1)]
    ThreadRT_Start_step ThreadNRT_Start_step ThreadRT_Join_step ThreadNRT_Join_step
  by (blast intro: appends_trans)+

subsection \<open>The shape of a run of \<^verbatim>\<open>main\<close>\<close>

lemma snd_finish:
  "snd (case r of (Inl e, w) \<Rightarrow> (Terminated e, w) | (Inr rc, w) \<Rightarrow> (Exit rc, w)) = snd r"
  by (cases r) (simp split: sum.splits)

lemma and_then_Inl: "and_then (Inl e, w) k = (Inl e, w)"
  by (simp add: and_then_def)

lemma and_then_Inr: "and_then (Inr a, w) k = k a w"
  by (simp add: and_then_def)

lemma trace_lock_world:
  "trace (lock_world argv) =
     (if length argv < 2 then [Fprintf_stderr ''WARNING: default exp_id=0\<newline>'' []] else [])
     @ [Mlockall (MCL_CURRENT OR MCL_FUTURE)]"
  by (simp add: lock_world_def log_def world0_def)

lemma main_after_lock: "appends after_lock (lock_world argv) (snd (main os argv))"
  unfolding main_def LockMemory_def lock_world_def
  by (auto simp add: Let_def snd_finish and_then_Inl and_then_Inr in_method_after_lock
      intro!: appends_and_then method_appends appends_log appends_printf appends_refl)

lemma main_trace:
  obtains es where "trace (snd (main os argv)) = trace (lock_world argv) @ es"
    and "list_all after_lock es"
  using main_after_lock [of argv os] by (auto simp: appends_iff)

lemma main_lock_denied:
  "mlockall_ret os \<noteq> 0 \<Longrightarrow>
     main os argv =
       (Terminated (Runtime_error (''mlockall failed: '' @ strerror os (errno os))), lock_world argv)"
  by (simp add: main_def LockMemory_def lock_world_def and_then_Inl Let_def)

lemma main_spawned_affinity:
  assumes "th \<in> set (spawned (trace (snd (main os argv))))"
  shows "affinity th = None"
proof -
  obtain es where tr: "trace (snd (main os argv)) = trace (lock_world argv) @ es"
    and es: "list_all after_lock es"
    by (rule main_trace)
  from assms have "th \<in> set (spawned es)"
    by (simp add: tr trace_lock_world spawned_append split: if_splits)
  with es show ?thesis
    by (rule after_lock_spawned)
qed

lemma main_stderr:
  "stderr (trace (snd (main os argv))) =
     (if length argv < 2 then [(''WARNING: default exp_id=0\<newline>'', [])] else [])"
proof -
  obtain es where tr: "trace (snd (main os argv)) = trace (lock_world argv) @ es"
    and es: "list_all after_lock es"
    by (rule main_trace)
  from es show ?thesis
    by (simp add: tr trace_lock_world stderr_append after_lock_stderr)
qed

text \<open>Scenarios 0, 2 and 4 up to the first \<^verbatim>\<open>Start()\<close>, whatever happens later.\<close>

lemma main_scenario_0:
  assumes "mlockall_ret os = 0" and "selected os argv = 0"
  obtains es where
    "trace (snd (main os argv)) =
       trace (lock_world argv) @
       [Printf ''Experiment 1: One CannyP3 APP (RT) and Two any-type APPs (NRT), All running on CPU=1\<newline>'' [],
        Constructed (AppX (AppTypeX 1 80 SCHED_FIFO)),
        Constructed (AppY (AppTypeY 2)),
        Constructed (AppY (AppTypeY 3))] @ es"
    and "list_all in_method es"
proof -
  let ?w = "log (Constructed (AppY (AppTypeY 3)))
             (log (Constructed (AppY (AppTypeY 2)))
               (log (Constructed (AppX (AppTypeX 1 80 SCHED_FIFO)))
                 (printf ''Experiment 1: One CannyP3 APP (RT) and Two any-type APPs (NRT), All running on CPU=1\<newline>'' []
                   (lock_world argv))))"
  from assms have "appends in_method ?w (snd (main os argv))"
    unfolding main_def LockMemory_def lock_world_def selected_def
    by (auto simp add: Let_def snd_finish and_then_Inl and_then_Inr split: if_splits
        intro!: appends_and_then method_appends appends_refl)
  then obtain es where "trace (snd (main os argv)) = trace ?w @ es" and "list_all in_method es"
    by (auto simp: appends_iff)
  then show thesis
    by (intro that [of es]) (simp_all add: log_def printf_def)
qed

lemma main_scenario_2:
  assumes "mlockall_ret os = 0" and "selected os argv = 2"
  obtains es where
    "trace (snd (main os argv)) =
       trace (lock_world argv) @
       [Printf ''Experiment 3: Two any-type APPs (same priority, SCHED_FIFO) in RT and One any-type APP (NRT), All running on CPU=1\<newline>'' [],
        Constructed (AppX (AppTypeX 1 80 SCHED_FIFO)),
        Constructed (AppX (AppTypeX 2 80 SCHED_FIFO)),
        Constructed (AppY (AppTypeY 3))] @ es"
    and "list_all in_method es"
proof -
  let ?w = "log (Constructed (AppY (AppTypeY 3)))
             (log (Constructed (AppX (AppTypeX 2 80 SCHED_FIFO)))
               (log (Constructed (AppX (AppTypeX 1 80 SCHED_FIFO)))
                 (printf ''Experiment 3: Two any-type APPs (same priority, SCHED_FIFO) in RT and One any-type APP (NRT), All running on CPU=1\<newline>'' []
                   (lock_world argv))))"
  from assms have "appends in_method ?w (snd (main os argv))"
    unfolding main_def LockMemory_def lock_world_def selected_def
    by (auto simp add: Let_def snd_finish and_then_Inl and_then_Inr split: if_splits
        intro!: appends_and_then method_appends appends_refl)
  then obtain es where "trace (snd (main os argv)) = trace ?w @ es" and "list_all in_method es"
    by (auto simp: appends_iff)
  then show thesis
    by (intro that [of es]) (simp_all add: log_def printf_def)
qed

lemma main_scenario_4:
  assumes "mlockall_ret os = 0" and "selected os argv = 4"
  obtains es where
    "trace (snd (main os argv)) =
       trace (lock_world argv) @
       [Printf ''Experiment 5: Same workload as 3, but freely run on available CPUs\<newline>'' [],
        Constructed (AppX (AppTypeX 1 80 SCHED_FIFO)),
        Constructed (AppX (AppTypeX 2 80 SCHED_FIFO)),
        Constructed (AppY (AppTypeY 3))] @ es"
    and "list_all in_method es"
proof -
  let ?w = "log (Constructed (AppY (AppTypeY 3)))
             (log (Constructed (AppX (AppTypeX 2 80 SCHED_FIFO)))
               (log (Constructed (AppX (AppTypeX 1 80 SCHED_FIFO)))
                 (printf ''Experiment 5: Same workload as 3, but freely run on available CPUs\<newline>'' []
                   (lock_world argv))))"
  from assms have "appends in_method ?w (snd (main os argv))"
    unfolding main_def LockMemory_def lock_world_def selected_def
    by (auto simp add: Let_def snd_finish and_then_Inl and_then_Inr split: if_splits
        intro!: appends_and_then method_appends appends_refl)
  then obtain es where "trace (snd (main os argv)) = trace ?w @ es" and "list_all in_method es"
    by (auto simp: appends_iff)
  then show thesis
    by (intro that [of es]) (simp_all add: log_def printf_def)
qed

subsection \<open>Elapsed time\<close>

lemma sint_diff_nonneg:
  fixes a b :: "64 word"
  assumes "0 \<le> sint a" and "0 \<le> sint b"
  shows "sint (a - b) = sint a - sint b"
proof -
  have "sint a < 2 ^ 63" and "sint b < 2 ^ 63"
    using sint_lt [of a] sint_lt [of b] by simp_all
  with assms have "- (2 ^ 63) \<le> sint a - sint b" and "sint a - sint b < 2 ^ 63"
    by simp_all
  then have "signed_take_bit 63 (sint a - sint b) = sint a - sint b"
    by (rule signed_take_bit_int_eq_self)
  then show ?thesis
    by (simp add: sint_word_ariths)
qed

text \<open>On valid timestamps neither subtraction wraps around.\<close>

lemma elapsed_time_exact:
  assumes "timeval_valid s" and "timeval_valid e"
  shows "elapsed_time os s e =
           to_double os
             (to_double os (of_int (sint (tv_sec e) - sint (tv_sec s))) +
              to_double os
                (to_double os (of_int (sint (tv_usec e) - sint (tv_usec s))) *
                 to_double os (1 / 10 ^ 6)))"
proof -
  have sec: "sint (tv_sec e - tv_sec s) = sint (tv_sec e) - sint (tv_sec s)"
    using assms by (intro sint_diff_nonneg) (simp_all add: timeval_valid_def)
  have usec: "sint (tv_usec e - tv_usec s) = sint (tv_usec e) - sint (tv_usec s)"
    using assms by (intro sint_diff_nonneg) (simp_all add: timeval_valid_def)
  show ?thesis
    unfolding elapsed_time_def Let_def sec usec ..
qed

lemma double_rounding_id: "double_rounding (\<lambda>x. x)"
  by (simp add: double_rounding_def)

text \<open>The rounded literal \<^verbatim>\<open>1e-6\<close> is not negative and at most \<open>1 / 999999\<close>.\<close>

lemma rd_const_bounds:
  assumes "double_rounding rd"
  shows "0 \<le> rd (1 / 10 ^ 6)" and "rd (1 / 10 ^ 6) * 999999 \<le> 1"
proof -
  let ?c = "(1::real) / 10 ^ 6"
  have mono: "\<And>x y. x \<le> y \<Longrightarrow> rd x \<le> rd y"
    and exact: "\<And>n::int. \<bar>n\<bar> \<le> 2 ^ 53 \<Longrightarrow> rd (of_int n) = of_int n"
    and err: "\<And>x. 1 / 2 ^ 1022 \<le> \<bar>x\<bar> \<and> \<bar>x\<bar> \<le> 2 ^ 1023 \<Longrightarrow> \<bar>rd x - x\<bar> \<le> \<bar>x\<bar> / 2 ^ 53"
    using assms by (auto simp: double_rounding_def)
  have "rd 0 = 0" using exact [of 0] by simp
  moreover have "rd 0 \<le> rd ?c" by (rule mono) simp
  ultimately show "0 \<le> rd ?c" by simp
  have "(1::real) / 2 ^ 1022 \<le> \<bar>?c\<bar> \<and> \<bar>?c\<bar> \<le> (2::real) ^ 1023" by simp
  then have "\<bar>rd ?c - ?c\<bar> \<le> \<bar>?c\<bar> / 2 ^ 53" by (rule err)
  then have "rd ?c \<le> ?c + \<bar>?c\<bar> / 2 ^ 53" by linarith
  also have "\<dots> \<le> 1 / 999999" by simp
  finally show "rd ?c * 999999 \<le> 1" by simp
qed

text \<open>
  If the seconds agree, the microseconds have not gone back and every term
  is at least 0. If the seconds have advanced, the microsecond term is at
  least \<open>- 999999\<close> times the rounded \<^verbatim>\<open>1e-6\<close>, so at least \<open>- 1\<close>, and rounding
  keeps it there.
\<close>

lemma elapsed_time_nonneg:
  assumes dr: "double_rounding (to_double os)"
    and s: "timeval_valid s" and e: "timeval_valid e" and le: "timeval_le s e"
  shows "0 \<le> elapsed_time os s e"
proof -
  define rd where "rd = to_double os"
  define S where "S = sint (tv_sec e) - sint (tv_sec s)"
  define M where "M = sint (tv_usec e) - sint (tv_usec s)"
  define c where "c = rd (1 / 10 ^ 6)"
  have mono: "\<And>x y. x \<le> y \<Longrightarrow> rd x \<le> rd y"
    and exact: "\<And>n::int. \<bar>n\<bar> \<le> 2 ^ 53 \<Longrightarrow> rd (of_int n) = of_int n"
    using dr by (auto simp: double_rounding_def rd_def)
  have el: "elapsed_time os s e = rd (rd (of_int S) + rd (rd (of_int M) * c))"
    unfolding rd_def S_def M_def c_def using s e by (rule elapsed_time_exact)
  have c0: "0 \<le> c" and c1: "c * 999999 \<le> 1"
    unfolding c_def using dr rd_const_bounds [of rd] by (simp_all add: rd_def)
  have M: "- 999999 \<le> M" "M \<le> 999999"
    using s e by (simp_all add: M_def timeval_valid_def)
  then have "\<bar>M\<bar> \<le> 2 ^ 53" by simp
  then have rdM: "rd (of_int M) = of_int M" by (rule exact)
  have rd0: "rd 0 = 0" using exact [of 0] by simp
  have rd1: "rd 1 = 1" using exact [of 1] by simp
  have rdm1: "rd (- 1) = - 1" using exact [of "- 1"] by simp
  from le consider (same) "S = 0" "0 \<le> M" | (later) "1 \<le> S"
    by (auto simp: timeval_le_def S_def M_def)
  then have "0 \<le> rd (of_int S) + rd (of_int M * c)"
  proof cases
    case same
    from \<open>0 \<le> M\<close> c0 have "0 \<le> of_int M * c" by simp
    then have "rd 0 \<le> rd (of_int M * c)" by (rule mono)
    with same rd0 show ?thesis by simp
  next
    case later
    then have "(1::real) \<le> of_int S" by simp
    then have "rd 1 \<le> rd (of_int S)" by (rule mono)
    then have a: "1 \<le> rd (of_int S)" by (simp add: rd1)
    have "- 999999 * c \<le> of_int M * c"
      using M(1) c0 by (intro mult_right_mono) simp_all
    with c1 have "- 1 \<le> of_int M * c" by simp
    then have "rd (- 1) \<le> rd (of_int M * c)" by (rule mono)
    then have "- 1 \<le> rd (of_int M * c)" by (simp add: rdm1)
    with a show ?thesis by simp
  qed
  then have "rd 0 \<le> rd (rd (of_int S) + rd (of_int M * c))" by (rule mono)
  then show ?thesis by (simp add: el rdM rd0)
qed

section \<open>The scenarios\<close>

text \<open>
  Claim C1: the code does not do what the claim says. The claim has every
  thread of scenarios 0, 2 and 3 pinned to CPU 1, as the banners of these
  scenarios (\<^verbatim>\<open>All running on CPU=1\<close>) and the comment at \<^verbatim>\<open>setCPU(1)\<close> say.
  But the call is behind \<^verbatim>\<open>#if SET_CPU\<close> and \<^verbatim>\<open>SET_CPU\<close> is \<^verbatim>\<open>false\<close>: on the
  platform where every call succeeds, each of the scenarios 0, 2 and 3
  spawns three threads and none of them asks for the affinity set \<open>{1}\<close>,
  or for any.
\<close>

theorem C1_threads_of_scenarios_0_2_3_not_pinned:
  "map affinity (spawned (trace (snd (main os_ok [''p3'', ''0''])))) = [None, None, None] \<and>
   Some {1} \<notin> set (map affinity (spawned (trace (snd (main os_ok [''p3'', ''0'']))))) \<and>
   map affinity (spawned (trace (snd (main os_ok [''p3'', ''2''])))) = [None, None, None] \<and>
   Some {1} \<notin> set (map affinity (spawned (trace (snd (main os_ok [''p3'', ''2'']))))) \<and>
   map affinity (spawned (trace (snd (main os_ok [''p3'', ''3''])))) = [None, None, None] \<and>
   Some {1} \<notin> set (map affinity (spawned (trace (snd (main os_ok [''p3'', ''3''])))))"
proof -
  have "map affinity (spawned (trace (snd (main os_ok [''p3'', ''0''])))) = [None, None, None]"
    by (simp add: prog_defs os_ok_def Let_def affinity_RunThreadRT affinity_RunThreadNRT
        cong: and_then_weak_cong let_weak_cong)
  moreover
  have "map affinity (spawned (trace (snd (main os_ok [''p3'', ''2''])))) = [None, None, None]"
    by (simp add: prog_defs os_ok_def Let_def affinity_RunThreadRT affinity_RunThreadNRT
        cong: and_then_weak_cong let_weak_cong)
  moreover
  have "map affinity (spawned (trace (snd (main os_ok [''p3'', ''3''])))) = [None, None, None]"
    by (simp add: prog_defs os_ok_def Let_def affinity_RunThreadRT affinity_RunThreadNRT
        cong: and_then_weak_cong let_weak_cong)
  ultimately show ?thesis
    by simp
qed

text \<open>
  Claim C2, as amended. The claim pairs scenario 4 with scenario 0; the
  source builds scenario 4 as scenario 2 (\<^verbatim>\<open>Same workload as 3\<close>, that is
  experiment 3, identifier 2). What holds: the handles constructed for
  scenario 4 and for scenario 2 agree in number, kind, requested priority
  and requested policy: two real-time handles FIFO/80 and one standard
  handle, once the memory lock has succeeded.
\<close>

theorem C2_scenario_4_matches_scenario_2:
  assumes "selected os a = 4" and "selected os b = 2"
  shows "map spec_of (constructed (trace (snd (main os a)))) =
           map spec_of (constructed (trace (snd (main os b)))) \<and>
         (mlockall_ret os = 0 \<longrightarrow>
            map spec_of (constructed (trace (snd (main os a)))) =
              [(RealTime, Some (80, SCHED_FIFO)), (RealTime, Some (80, SCHED_FIFO)), (Standard, None)])"
proof (cases "mlockall_ret os = 0")
  case True
  obtain es where a: "trace (snd (main os a)) =
       trace (lock_world a) @
       [Printf ''Experiment 5: Same workload as 3, but freely run on available CPUs\<newline>'' [],
        Constructed (AppX (AppTypeX 1 80 SCHED_FIFO)),
        Constructed (AppX (AppTypeX 2 80 SCHED_FIFO)),
        Constructed (AppY (AppTypeY 3))] @ es"
    and es: "list_all in_method es"
    using True assms(1) by (rule main_scenario_4)
  obtain fs where b: "trace (snd (main os b)) =
       trace (lock_world b) @
       [Printf ''Experiment 3: Two any-type APPs (same priority, SCHED_FIFO) in RT and One any-type APP (NRT), All running on CPU=1\<newline>'' [],
        Constructed (AppX (AppTypeX 1 80 SCHED_FIFO)),
        Constructed (AppX (AppTypeX 2 80 SCHED_FIFO)),
        Constructed (AppY (AppTypeY 3))] @ fs"
    and fs: "list_all in_method fs"
    using True assms(2) by (rule main_scenario_2)
  have "map spec_of (constructed (trace (snd (main os a)))) =
      [(RealTime, Some (80, SCHED_FIFO)), (RealTime, Some (80, SCHED_FIFO)), (Standard, None)]"
    using es by (simp add: a trace_lock_world constructed_append in_method_constructed AppTypeX_def)
  moreover have "map spec_of (constructed (trace (snd (main os b)))) =
      [(RealTime, Some (80, SCHED_FIFO)), (RealTime, Some (80, SCHED_FIFO)), (Standard, None)]"
    using fs by (simp add: b trace_lock_world constructed_append in_method_constructed AppTypeX_def)
  ultimately show ?thesis by simp
next
  case False
  then show ?thesis
    by (simp add: main_lock_denied trace_lock_world constructed_append)
qed

theorem C2_scenario_4_matches_scenario_2_witness:
  "selected os_ok [''p3'', ''4''] = 4 \<and> selected os_ok [''p3'', ''2''] = 2 \<and> mlockall_ret os_ok = 0 \<and>
   map spec_of (constructed (trace (snd (main os_ok [''p3'', ''4''])))) =
     map spec_of (constructed (trace (snd (main os_ok [''p3'', ''2''])))) \<and>
   map spec_of (constructed (trace (snd (main os_ok [''p3'', ''4''])))) =
     [(RealTime, Some (80, SCHED_FIFO)), (RealTime, Some (80, SCHED_FIFO)), (Standard, None)]"
proof -
  have a: "selected os_ok [''p3'', ''4''] = 4" and b: "selected os_ok [''p3'', ''2''] = 2"
    by (simp_all add: selected_def os_ok_def)
  have c: "mlockall_ret os_ok = 0"
    by (simp add: os_ok_def)
  from C2_scenario_4_matches_scenario_2 [OF a b] a b c show ?thesis
    by auto
qed

text \<open>
  The claim as stated fails: scenario 4 constructs two real-time handles and
  one standard handle, scenario 0 one real-time handle and two standard ones.
\<close>

theorem C2_counterexample:
  "map spec_of (constructed (trace (snd (main os_ok [''p3'', ''4''])))) \<noteq>
   map spec_of (constructed (trace (snd (main os_ok [''p3'', ''0'']))))"
  by (simp add: prog_defs os_ok_def Let_def cong: and_then_weak_cong let_weak_cong)

text \<open>
  Claim C4. When the scenario identifier is none of 0, 1, 2, 3, 4, no handle
  is constructed, neither \<^verbatim>\<open>Start()\<close> nor \<^verbatim>\<open>Join()\<close> is entered and no thread
  is spawned; once the memory lock has succeeded, the only output is the
  line \<^verbatim>\<open>ERROR: exp_id NOT FOUND\<close> and \<^verbatim>\<open>main\<close> returns 0.
\<close>

theorem C4_unknown_identifier:
  assumes "selected os argv \<notin> {0, 1, 2, 3, 4}"
  shows "constructed (trace (snd (main os argv))) = [] \<and>
         calls (trace (snd (main os argv))) = [] \<and>
         spawned (trace (snd (main os argv))) = [] \<and>
         (mlockall_ret os = 0 \<longrightarrow>
            fst (main os argv) = Exit 0 \<and>
            stdout (trace (snd (main os argv))) = [(''ERROR: exp_id NOT FOUND\<newline>'', [])])"
  using assms
  by (simp add: main_def selected_def LockMemory_def and_then_Inl and_then_Inr Let_def
      printf_def log_def world0_def split: if_splits)

theorem C4_unknown_identifier_witness:
  "selected os_ok [''p3'', ''99''] \<notin> {0, 1, 2, 3, 4} \<and> mlockall_ret os_ok = 0 \<and>
   constructed (trace (snd (main os_ok [''p3'', ''99'']))) = [] \<and>
   calls (trace (snd (main os_ok [''p3'', ''99'']))) = [] \<and>
   spawned (trace (snd (main os_ok [''p3'', ''99'']))) = [] \<and>
   fst (main os_ok [''p3'', ''99'']) = Exit 0 \<and>
   stdout (trace (snd (main os_ok [''p3'', ''99'']))) = [(''ERROR: exp_id NOT FOUND\<newline>'', [])]"
proof -
  have a: "selected os_ok [''p3'', ''99''] \<notin> {0, 1, 2, 3, 4}"
    by (simp add: selected_def os_ok_def)
  have c: "mlockall_ret os_ok = 0"
    by (simp add: os_ok_def)
  from C4_unknown_identifier [OF a] a c show ?thesis
    by blast
qed

text \<open>
  Claim C5. For each scenario identifier 0, 1, 2, 3, 4, when the memory lock,
  every thread creation and every join succeed: exactly three handles are
  constructed, with the application numbers 1, 2, 3; \<^verbatim>\<open>Start()\<close> is entered
  once for each, in that order, before any \<^verbatim>\<open>Join()\<close>; then \<^verbatim>\<open>Join()\<close> is
  entered once for each, in the same order; so there are as many joins as
  starts.
\<close>

theorem C5_three_handles_started_then_joined:
  assumes "selected os argv \<in> {0, 1, 2, 3, 4}"
    and "mlockall_ret os = 0"
    and "\<forall>k. create_ret os k = 0"
    and "\<forall>t. join_ret os t = 0"
  shows "map app_id_of (constructed (trace (snd (main os argv)))) = [1, 2, 3] \<and>
         calls (trace (snd (main os argv))) =
           [Start_called 1, Start_called 2, Start_called 3,
            Join_called 1, Join_called 2, Join_called 3] \<and>
         fst (main os argv) = Exit 0"
  using assms
  by (auto simp add: prog_defs Let_def split: if_splits cong: and_then_weak_cong let_weak_cong)

theorem C5_three_handles_started_then_joined_witness:
  "selected os_ok [''p3'', ''3''] \<in> {0, 1, 2, 3, 4} \<and> mlockall_ret os_ok = 0 \<and>
   (\<forall>k. create_ret os_ok k = 0) \<and> (\<forall>t. join_ret os_ok t = 0) \<and>
   map app_id_of (constructed (trace (snd (main os_ok [''p3'', ''3''])))) = [1, 2, 3] \<and>
   calls (trace (snd (main os_ok [''p3'', ''3'']))) =
     [Start_called 1, Start_called 2, Start_called 3,
      Join_called 1, Join_called 2, Join_called 3] \<and>
   fst (main os_ok [''p3'', ''3'']) = Exit 0"
proof -
  have a: "selected os_ok [''p3'', ''3''] \<in> {0, 1, 2, 3, 4}"
    by (simp add: selected_def os_ok_def)
  have b: "mlockall_ret os_ok = 0" and c: "\<forall>k. create_ret os_ok k = 0"
    and d: "\<forall>t. join_ret os_ok t = 0"
    by (simp_all add: os_ok_def)
  from C5_three_handles_started_then_joined [OF a b c d] a b c d show ?thesis
    by blast
qed

text \<open>
  Claim C6. In every run of \<^verbatim>\<open>main\<close>, \<^verbatim>\<open>mlockall\<close> is called exactly once, for
  current and future pages, and before every entry into \<^verbatim>\<open>Start()\<close>, every
  \<^verbatim>\<open>pthread_create\<close> and every spawned thread; when it is denied, \<^verbatim>\<open>main\<close>
  ends with the uncaught \<^verbatim>\<open>runtime_error\<close> and no \<^verbatim>\<open>Start()\<close> is entered
  and no thread spawned.
\<close>

theorem C6_memory_locked_once_before_any_start:
  "mlockalls (trace (snd (main os argv))) = [MCL_CURRENT OR MCL_FUTURE] \<and>
   lock_first False (trace (snd (main os argv))) \<and>
   (mlockall_ret os \<noteq> 0 \<longrightarrow>
      fst (main os argv) =
        Terminated (Runtime_error (''mlockall failed: '' @ strerror os (errno os))) \<and>
      calls (trace (snd (main os argv))) = [] \<and>
      spawned (trace (snd (main os argv))) = [])"
proof -
  obtain es where tr: "trace (snd (main os argv)) = trace (lock_world argv) @ es"
    and es: "list_all after_lock es"
    by (rule main_trace)
  have once: "mlockalls (trace (snd (main os argv))) = [MCL_CURRENT OR MCL_FUTURE]"
    using es by (simp add: tr trace_lock_world mlockalls_append after_lock_mlockalls)
  have first: "lock_first False (trace (snd (main os argv)))"
    by (simp add: tr trace_lock_world lock_first_True)
  have denied: "fst (main os argv) =
        Terminated (Runtime_error (''mlockall failed: '' @ strerror os (errno os))) \<and>
      calls (trace (snd (main os argv))) = [] \<and> spawned (trace (snd (main os argv))) = []"
    if "mlockall_ret os \<noteq> 0"
    by (simp add: main_lock_denied [OF that] trace_lock_world)
  from once first denied show ?thesis by blast
qed

theorem C6_memory_locked_once_before_any_start_witness:
  "mlockall_ret os_lock_denied \<noteq> 0 \<and>
   mlockalls (trace (snd (main os_lock_denied [''p3'', ''0'']))) = [MCL_CURRENT OR MCL_FUTURE] \<and>
   lock_first False (trace (snd (main os_lock_denied [''p3'', ''0'']))) \<and>
   fst (main os_lock_denied [''p3'', ''0'']) =
     Terminated (Runtime_error ''mlockall failed: Operation not permitted'') \<and>
   calls (trace (snd (main os_lock_denied [''p3'', ''0'']))) = [] \<and>
   spawned (trace (snd (main os_lock_denied [''p3'', ''0'']))) = []"
proof -
  have a: "mlockall_ret os_lock_denied \<noteq> 0"
    by (simp add: os_lock_denied_def)
  have b: "strerror os_lock_denied (errno os_lock_denied) = ''Operation not permitted''"
    by (simp add: os_lock_denied_def os_ok_def)
  from C6_memory_locked_once_before_any_start [of os_lock_denied "[''p3'', ''0'']"] a
  show ?thesis
    unfolding b by simp
qed

section \<open>The handles\<close>

text \<open>
  Claim C3: the code does not do what the claim says. \<^verbatim>\<open>ThreadRT::Join\<close>
  tests the return value of \<^verbatim>\<open>pthread_join\<close> and throws;
  \<^verbatim>\<open>ThreadNRT::Join\<close> drops it. So \<^verbatim>\<open>ThreadNRT::Join\<close> never ends with a
  \<^verbatim>\<open>runtime_error\<close>: when the join of the standard thread of application 2
  in scenario 0 fails with \<^verbatim>\<open>ESRCH\<close>, \<^verbatim>\<open>main\<close> reports a run time for it and
  returns 0, whereas the same failure on the real-time thread of application
  1 ends \<^verbatim>\<open>main\<close> with the exception.
\<close>

theorem C3_ThreadNRT_Join_drops_join_failure:
  "fst (ThreadNRT_Join os h w) \<noteq> Inl (Runtime_error msg) \<and>
   join_ret (os_join_fails 101) 101 = 3 \<and>
   Pthread_join 101 \<in> set (trace (snd (main (os_join_fails 101) [''p3'', ''0'']))) \<and>
   (''App #%d runtime: %f seconds\<newline>'', [ArgInt 2, ArgDouble (3 / 4)])
     \<in> set (stdout (trace (snd (main (os_join_fails 101) [''p3'', ''0''])))) \<and>
   fst (main (os_join_fails 101) [''p3'', ''0'']) = Exit 0 \<and>
   fst (main (os_join_fails 100) [''p3'', ''0'']) =
     Terminated (Runtime_error ''pthread_join failed: No such process'')"
proof -
  have "fst (ThreadNRT_Join os h w) \<noteq> Inl (Runtime_error msg)"
    by (simp add: ThreadNRT_Join_def gettimeofday_def Let_def split: option.splits)
  moreover have "join_ret (os_join_fails 101) 101 = 3"
    by (simp add: os_join_fails_def)
  moreover have "Pthread_join 101 \<in> set (trace (snd (main (os_join_fails 101) [''p3'', ''0''])))"
    by (simp add: prog_defs os_join_fails_def os_ok_def Let_def cong: and_then_weak_cong let_weak_cong)
  moreover have "(''App #%d runtime: %f seconds\<newline>'', [ArgInt 2, ArgDouble (3 / 4)])
     \<in> set (stdout (trace (snd (main (os_join_fails 101) [''p3'', ''0'']))))"
    by (simp add: prog_defs os_join_fails_def os_ok_def elapsed_time_def Let_def cong: and_then_weak_cong let_weak_cong)
  moreover have "fst (main (os_join_fails 101) [''p3'', ''0'']) = Exit 0"
    by (simp add: prog_defs os_join_fails_def os_ok_def Let_def cong: and_then_weak_cong let_weak_cong)
  moreover have "fst (main (os_join_fails 100) [''p3'', ''0'']) =
     Terminated (Runtime_error ''pthread_join failed: No such process'')"
    by (simp add: prog_defs os_join_fails_def os_ok_def Let_def cong: and_then_weak_cong let_weak_cong)
  ultimately show ?thesis by blast
qed

text \<open>
  Claim C7. Take a real-time handle whose policy the attributes can hold
  and whose priority lies in the range of that policy: on Linux
  \<^verbatim>\<open>SCHED_FIFO\<close> or \<^verbatim>\<open>SCHED_RR\<close> with a priority from 1 to 99 (or
  \<^verbatim>\<open>SCHED_OTHER\<close> with priority 0). \<^verbatim>\<open>ThreadRT::Start\<close> reads the clock and
  then calls \<^verbatim>\<open>pthread_create\<close> with attributes that carry the handle's
  policy and priority, a stack of 1 MiB and \<^verbatim>\<open>PTHREAD_EXPLICIT_SCHED\<close>. When
  the call returns 0 the handle holds the time read and the new thread,
  which runs \<^verbatim>\<open>RunThreadRT\<close> on the handle. When it returns \<open>ret \<noteq> 0\<close> no
  thread runs and \<^verbatim>\<open>Start()\<close> throws a \<^verbatim>\<open>runtime_error\<close> whose message ends
  with \<^verbatim>\<open>strerror(ret)\<close>.
\<close>

theorem C7_ThreadRT_Start:
  assumes "rt_policy h = SCHED_OTHER \<or> rt_policy h = SCHED_FIFO \<or> rt_policy h = SCHED_RR"
    and "sched_get_priority_min (rt_policy h) \<le> rt_priority h"
    and "rt_priority h \<le> sched_get_priority_max (rt_policy h)"
  shows
  "trace (snd (ThreadRT_Start os h w)) =
     trace w @
     [Start_called (rt_app_id h),
      Gettimeofday (clock os (n_time w)),
      Pthread_create
        (Some \<lparr>schedpolicy = rt_policy h, sched_priority = rt_priority h,
               stacksize = 1048576, inheritsched = PTHREAD_EXPLICIT_SCHED\<rparr>)
        (create_ret os (n_create w))] @
     (if create_ret os (n_create w) = 0
      then [Thread_run (new_tid os (n_create w))
              (RunThreadRT os (h\<lparr>rt_start_time := Some (clock os (n_time w))\<rparr>)
                 (new_tid os (n_create w))),
            Pthread_attr_destroy]
      else []) \<and>
   (create_ret os (n_create w) = 0 \<longrightarrow>
      fst (ThreadRT_Start os h w) =
        Inr (h\<lparr>rt_start_time := Some (clock os (n_time w)),
                rt_thread := Some (new_tid os (n_create w))\<rparr>)) \<and>
   (create_ret os (n_create w) \<noteq> 0 \<longrightarrow>
      fst (ThreadRT_Start os h w) =
        Inl (Runtime_error (''pthread_create failed: '' @ strerror os (create_ret os (n_create w)))))"
proof -
  have attr:
    "pthread_attr_setinheritsched PTHREAD_EXPLICIT_SCHED
       (pthread_attr_setstacksize 1048576
          (snd (pthread_attr_setschedparam (rt_priority h)
             (snd (pthread_attr_setschedpolicy (rt_policy h) (pthread_attr_init os)))))) =
     \<lparr>schedpolicy = rt_policy h, sched_priority = rt_priority h,
      stacksize = 1048576, inheritsched = PTHREAD_EXPLICIT_SCHED\<rparr>"
    using assms
    by (auto simp add: pthread_attr_init_def pthread_attr_setschedpolicy_def
        pthread_attr_setschedparam_def pthread_attr_setstacksize_def
        pthread_attr_setinheritsched_def sched_get_priority_min_def sched_get_priority_max_def
        SCHED_OTHER_def SCHED_FIFO_def SCHED_RR_def Let_def)
  show ?thesis
    by (simp add: ThreadRT_Start_def pthread_create_def gettimeofday_def log_def Let_def attr)
qed

text \<open>
  The first handle of scenario 0: a start that succeeds, and one where
  \<^verbatim>\<open>pthread_create\<close> returns \<^verbatim>\<open>EAGAIN\<close>.
\<close>

theorem C7_ThreadRT_Start_witness:
  "(rt_policy (AppTypeX 1 80 SCHED_FIFO) = SCHED_OTHER \<or>
    rt_policy (AppTypeX 1 80 SCHED_FIFO) = SCHED_FIFO \<or>
    rt_policy (AppTypeX 1 80 SCHED_FIFO) = SCHED_RR) \<and>
   sched_get_priority_min (rt_policy (AppTypeX 1 80 SCHED_FIFO))
     \<le> rt_priority (AppTypeX 1 80 SCHED_FIFO) \<and>
   rt_priority (AppTypeX 1 80 SCHED_FIFO)
     \<le> sched_get_priority_max (rt_policy (AppTypeX 1 80 SCHED_FIFO)) \<and>
   create_ret os_ok (n_create world0) = 0 \<and>
   fst (ThreadRT_Start os_ok (AppTypeX 1 80 SCHED_FIFO) world0) =
     Inr \<lparr>rt_priority = 80, rt_policy = SCHED_FIFO, rt_thread = Some 100,
          rt_start_time = Some \<lparr>tv_sec = 1000, tv_usec = 0\<rparr>, rt_app_id = 1\<rparr> \<and>
   create_ret os_create_fails (n_create world0) \<noteq> 0 \<and>
   fst (ThreadRT_Start os_create_fails (AppTypeX 1 80 SCHED_FIFO) world0) =
     Inl (Runtime_error ''pthread_create failed: Resource temporarily unavailable'')"
proof -
  have p: "rt_policy (AppTypeX 1 80 SCHED_FIFO) = SCHED_OTHER \<or>
           rt_policy (AppTypeX 1 80 SCHED_FIFO) = SCHED_FIFO \<or>
           rt_policy (AppTypeX 1 80 SCHED_FIFO) = SCHED_RR"
    by (simp add: AppTypeX_def)
  have lo: "sched_get_priority_min (rt_policy (AppTypeX 1 80 SCHED_FIFO))
              \<le> rt_priority (AppTypeX 1 80 SCHED_FIFO)"
    and hi: "rt_priority (AppTypeX 1 80 SCHED_FIFO)
              \<le> sched_get_priority_max (rt_policy (AppTypeX 1 80 SCHED_FIFO))"
    by (simp_all add: AppTypeX_def sched_get_priority_min_def sched_get_priority_max_def)
  have a: "create_ret os_ok (n_create world0) = 0"
    by (simp add: os_ok_def)
  have b: "create_ret os_create_fails (n_create world0) \<noteq> 0"
    by (simp add: os_create_fails_def)
  have c: "(AppTypeX 1 80 SCHED_FIFO)
             \<lparr>rt_start_time := Some (clock os_ok (n_time world0)),
              rt_thread := Some (new_tid os_ok (n_create world0))\<rparr> =
           \<lparr>rt_priority = 80, rt_policy = SCHED_FIFO, rt_thread = Some 100,
            rt_start_time = Some \<lparr>tv_sec = 1000, tv_usec = 0\<rparr>, rt_app_id = 1\<rparr>"
    by (simp add: AppTypeX_def os_ok_def world0_def)
  have d: "strerror os_create_fails (create_ret os_create_fails (n_create world0)) =
           ''Resource temporarily unavailable''"
    by (simp add: os_create_fails_def os_ok_def)
  from C7_ThreadRT_Start [OF p lo hi, of os_ok world0]
    C7_ThreadRT_Start [OF p lo hi, of os_create_fails world0] a b p lo hi
  show ?thesis
    unfolding c d by simp
qed

text \<open>
  Outside these ranges the requests are refused and \<^verbatim>\<open>Start()\<close> does not
  notice: priority 150 under \<^verbatim>\<open>SCHED_FIFO\<close> leaves the priority of the
  attributes at 0, and the unknown policy 99 leaves them at \<^verbatim>\<open>SCHED_OTHER\<close>,
  which then refuses priority 80 too.
\<close>

lemma ThreadRT_Start_priority_refused:
  "trace (snd (ThreadRT_Start os_ok (AppTypeX 1 150 SCHED_FIFO) world0)) ! 2 =
     Pthread_create
       (Some \<lparr>schedpolicy = SCHED_FIFO, sched_priority = 0,
              stacksize = 1048576, inheritsched = PTHREAD_EXPLICIT_SCHED\<rparr>) 0"
  by (simp add: ThreadRT_Start_def pthread_create_def gettimeofday_def log_def Let_def
      pthread_attr_init_def pthread_attr_setschedpolicy_def pthread_attr_setschedparam_def
      pthread_attr_setstacksize_def pthread_attr_setinheritsched_def
      sched_get_priority_min_def sched_get_priority_max_def
      SCHED_OTHER_def SCHED_FIFO_def SCHED_RR_def AppTypeX_def world0_def os_ok_def)

lemma ThreadRT_Start_policy_refused:
  "trace (snd (ThreadRT_Start os_ok (AppTypeX 1 80 99) world0)) ! 2 =
     Pthread_create
       (Some \<lparr>schedpolicy = SCHED_OTHER, sched_priority = 0,
              stacksize = 1048576, inheritsched = PTHREAD_EXPLICIT_SCHED\<rparr>) 0"
  by (simp add: ThreadRT_Start_def pthread_create_def gettimeofday_def log_def Let_def
      pthread_attr_init_def pthread_attr_setschedpolicy_def pthread_attr_setschedparam_def
      pthread_attr_setstacksize_def pthread_attr_setinheritsched_def
      sched_get_priority_min_def sched_get_priority_max_def
      SCHED_OTHER_def SCHED_FIFO_def SCHED_RR_def AppTypeX_def world0_def os_ok_def)

text \<open>
  Claim C8. A \<^verbatim>\<open>Join()\<close> that succeeds on a started handle of either class
  prints the handle's application number with
  \<open>elapsed_time os start_time end_time\<close>, where \<open>end_time\<close> is the clock
  reading taken in \<^verbatim>\<open>Join()\<close>. On timestamps as \<^verbatim>\<open>gettimeofday\<close> stores them
  that value is the \<^verbatim>\<open>double\<close> computation of
  \<open>(end.tv_sec - start.tv_sec) + (end.tv_usec - start.tv_usec) * 1e-6\<close>
  with no wrap-around in the integer subtractions, and it is not negative
  when \<open>start_time\<close> is not after \<open>end_time\<close>.
\<close>

theorem C8_elapsed_time:
  assumes "rt_thread hx = Some tx" and "rt_start_time hx = Some sx" and "join_ret os tx = 0"
    and "nrt_thread hy = Some ty" and "nrt_start_time hy = Some sy"
  shows "fst (ThreadRT_Join os hx w) = Inr () \<and>
         stdout (trace (snd (ThreadRT_Join os hx w))) =
           stdout (trace w) @
           [(''App #%d runtime: %f seconds\<newline>'',
               [ArgInt (rt_app_id hx), ArgDouble (elapsed_time os sx (clock os (n_time w)))]),
            (''[RT thread #%lu] App #%d Ends\<newline>'', [ArgULong tx, ArgInt (rt_app_id hx)])] \<and>
         fst (ThreadNRT_Join os hy w) = Inr () \<and>
         stdout (trace (snd (ThreadNRT_Join os hy w))) =
           stdout (trace w) @
           [(''App #%d runtime: %f seconds\<newline>'',
               [ArgInt (nrt_app_id hy), ArgDouble (elapsed_time os sy (clock os (n_time w)))]),
            (''[NRT thread #%lu] App #%d Ends\<newline>'', [ArgULong ty, ArgInt (nrt_app_id hy)])] \<and>
         (timeval_valid s \<and> timeval_valid e \<longrightarrow>
            elapsed_time os s e =
              to_double os
                (to_double os (of_int (sint (tv_sec e) - sint (tv_sec s))) +
                 to_double os
                   (to_double os (of_int (sint (tv_usec e) - sint (tv_usec s))) *
                    to_double os (1 / 10 ^ 6)))) \<and>
         (double_rounding (to_double os) \<and> timeval_valid s \<and> timeval_valid e \<and> timeval_le s e \<longrightarrow>
            0 \<le> elapsed_time os s e)"
proof -
  have rt: "fst (ThreadRT_Join os hx w) = Inr () \<and>
         stdout (trace (snd (ThreadRT_Join os hx w))) =
           stdout (trace w) @
           [(''App #%d runtime: %f seconds\<newline>'',
               [ArgInt (rt_app_id hx), ArgDouble (elapsed_time os sx (clock os (n_time w)))]),
            (''[RT thread #%lu] App #%d Ends\<newline>'', [ArgULong tx, ArgInt (rt_app_id hx)])]"
    using assms(1-3)
    by (simp add: ThreadRT_Join_def gettimeofday_def printf_def log_def Let_def stdout_append)
  have nrt: "fst (ThreadNRT_Join os hy w) = Inr () \<and>
         stdout (trace (snd (ThreadNRT_Join os hy w))) =
           stdout (trace w) @
           [(''App #%d runtime: %f seconds\<newline>'',
               [ArgInt (nrt_app_id hy), ArgDouble (elapsed_time os sy (clock os (n_time w)))]),
            (''[NRT thread #%lu] App #%d Ends\<newline>'', [ArgULong ty, ArgInt (nrt_app_id hy)])]"
    using assms(4-5)
    by (simp add: ThreadNRT_Join_def gettimeofday_def printf_def log_def Let_def stdout_append)
  from rt nrt elapsed_time_exact [of s e os] elapsed_time_nonneg [of os s e] show ?thesis
    by blast
qed

text \<open>
  A real-time handle started at 1000.25 s and joined at 1001.00 s: the
  microsecond difference is negative, the elapsed time is 0.75 s.
\<close>

theorem C8_elapsed_time_witness:
  "join_ret os_ok 100 = 0 \<and>
   timeval_valid \<lparr>tv_sec = 1000, tv_usec = 250000\<rparr> \<and>
   timeval_valid \<lparr>tv_sec = 1001, tv_usec = 0\<rparr> \<and>
   timeval_le \<lparr>tv_sec = 1000, tv_usec = 250000\<rparr> \<lparr>tv_sec = 1001, tv_usec = 0\<rparr> \<and>
   double_rounding (to_double os_ok) \<and>
   fst (ThreadRT_Join os_ok
         \<lparr>rt_priority = 80, rt_policy = SCHED_FIFO, rt_thread = Some 100,
          rt_start_time = Some \<lparr>tv_sec = 1000, tv_usec = 250000\<rparr>, rt_app_id = 1\<rparr>
         (world0\<lparr>n_time := 4\<rparr>)) = Inr () \<and>
   0 \<le> elapsed_time os_ok \<lparr>tv_sec = 1000, tv_usec = 250000\<rparr> \<lparr>tv_sec = 1001, tv_usec = 0\<rparr> \<and>
   elapsed_time os_ok \<lparr>tv_sec = 1000, tv_usec = 250000\<rparr> \<lparr>tv_sec = 1001, tv_usec = 0\<rparr> = 3 / 4"
proof -
  let ?s = "\<lparr>tv_sec = 1000, tv_usec = 250000\<rparr>" and ?e = "\<lparr>tv_sec = 1001, tv_usec = 0\<rparr>"
  let ?hx = "\<lparr>rt_priority = 80, rt_policy = SCHED_FIFO, rt_thread = Some 100,
             rt_start_time = Some ?s, rt_app_id = 1\<rparr>"
  let ?hy = "\<lparr>nrt_thread = Some 101, nrt_start_time = Some ?s, nrt_app_id = 2\<rparr>"
  have j: "join_ret os_ok 100 = 0"
    by (simp add: os_ok_def)
  have v: "timeval_valid ?s" "timeval_valid ?e" "timeval_le ?s ?e"
    by (simp_all add: timeval_valid_def timeval_le_def)
  have d: "double_rounding (to_double os_ok)"
    using double_rounding_id by (simp add: os_ok_def)
  have x: "elapsed_time os_ok ?s ?e = 3 / 4"
    by (simp add: elapsed_time_def os_ok_def Let_def)
  have "rt_thread ?hx = Some 100" and "rt_start_time ?hx = Some ?s"
    and "nrt_thread ?hy = Some 101" and "nrt_start_time ?hy = Some ?s"
    by simp_all
  from C8_elapsed_time [OF this(1,2) j this(3,4), of "world0\<lparr>n_time := 4\<rparr>" ?s ?e] j v d x
  show ?thesis
    by simp
qed

section \<open>The command line\<close>

text \<open>
  Claim C9. With no argument, \<^verbatim>\<open>main\<close> writes one warning to standard error
  and takes 4 as the scenario identifier: once the memory lock has succeeded
  it announces experiment 5 and constructs two real-time handles FIFO/80
  and one standard handle; no thread it spawns asks for an affinity; and
  when every call succeeds the three threads are spawned and \<^verbatim>\<open>main\<close>
  returns 0.
\<close>

theorem C9_default_is_scenario_4:
  assumes "length argv < 2"
  shows "stderr (trace (snd (main os argv))) = [(''WARNING: default exp_id=0\<newline>'', [])] \<and>
         selected os argv = 4 \<and>
         (mlockall_ret os = 0 \<longrightarrow>
            take 1 (stdout (trace (snd (main os argv)))) =
              [(''Experiment 5: Same workload as 3, but freely run on available CPUs\<newline>'', [])] \<and>
            map spec_of (constructed (trace (snd (main os argv)))) =
              [(RealTime, Some (80, SCHED_FIFO)), (RealTime, Some (80, SCHED_FIFO)), (Standard, None)]) \<and>
         (\<forall>th \<in> set (spawned (trace (snd (main os argv)))). affinity th = None) \<and>
         (mlockall_ret os = 0 \<and> (\<forall>k. create_ret os k = 0) \<and> (\<forall>t. join_ret os t = 0) \<longrightarrow>
            map fst (spawned (trace (snd (main os argv)))) = [new_tid os 0, new_tid os 1, new_tid os 2] \<and>
            fst (main os argv) = Exit 0)"
proof -
  have warn: "stderr (trace (snd (main os argv))) = [(''WARNING: default exp_id=0\<newline>'', [])]"
    using assms by (simp add: main_stderr)
  have sel: "selected os argv = 4"
    using assms by (simp add: selected_def)
  have mix: "take 1 (stdout (trace (snd (main os argv)))) =
              [(''Experiment 5: Same workload as 3, but freely run on available CPUs\<newline>'', [])] \<and>
            map spec_of (constructed (trace (snd (main os argv)))) =
              [(RealTime, Some (80, SCHED_FIFO)), (RealTime, Some (80, SCHED_FIFO)), (Standard, None)]"
    if lock: "mlockall_ret os = 0"
  proof -
    obtain es where tr: "trace (snd (main os argv)) =
       trace (lock_world argv) @
       [Printf ''Experiment 5: Same workload as 3, but freely run on available CPUs\<newline>'' [],
        Constructed (AppX (AppTypeX 1 80 SCHED_FIFO)),
        Constructed (AppX (AppTypeX 2 80 SCHED_FIFO)),
        Constructed (AppY (AppTypeY 3))] @ es"
      and es: "list_all in_method es"
      using lock sel by (rule main_scenario_4)
    from es show ?thesis
      by (simp add: tr trace_lock_world stdout_append constructed_append in_method_constructed
          AppTypeX_def)
  qed
  have free: "\<forall>th \<in> set (spawned (trace (snd (main os argv)))). affinity th = None"
    by (blast intro: main_spawned_affinity)
  have run: "map fst (spawned (trace (snd (main os argv)))) = [new_tid os 0, new_tid os 1, new_tid os 2] \<and>
            fst (main os argv) = Exit 0"
    if "mlockall_ret os = 0 \<and> (\<forall>k. create_ret os k = 0) \<and> (\<forall>t. join_ret os t = 0)"
    using assms that
    by (simp add: prog_defs Let_def numeral_2_eq_2 cong: and_then_weak_cong let_weak_cong)
  from warn sel mix free run show ?thesis
    by blast
qed

theorem C9_default_is_scenario_4_witness:
  "length [''p3''] < 2 \<and> mlockall_ret os_ok = 0 \<and>
   (\<forall>k. create_ret os_ok k = 0) \<and> (\<forall>t. join_ret os_ok t = 0) \<and>
   stderr (trace (snd (main os_ok [''p3'']))) = [(''WARNING: default exp_id=0\<newline>'', [])] \<and>
   selected os_ok [''p3''] = 4 \<and>
   map spec_of (constructed (trace (snd (main os_ok [''p3''])))) =
     [(RealTime, Some (80, SCHED_FIFO)), (RealTime, Some (80, SCHED_FIFO)), (Standard, None)] \<and>
   map fst (spawned (trace (snd (main os_ok [''p3''])))) = [100, 101, 102] \<and>
   fst (main os_ok [''p3'']) = Exit 0"
proof -
  have a: "length [''p3''] < 2"
    by simp
  have b: "mlockall_ret os_ok = 0" and c: "\<forall>k. create_ret os_ok k = 0"
    and d: "\<forall>t. join_ret os_ok t = 0"
    and t: "new_tid os_ok 0 = 100" "new_tid os_ok 1 = 101" "new_tid os_ok 2 = 102"
    by (simp_all add: os_ok_def)
  from C9_default_is_scenario_4 [OF a, of os_ok] a b c d show ?thesis
    unfolding t by blast
qed

text \<open>
  Claim C10. When the first argument is one for which \<^verbatim>\<open>atoi\<close> returns 0, as
  it does for a string that is no number, \<^verbatim>\<open>main\<close> runs scenario 0: nothing
  goes to standard error, the line \<^verbatim>\<open>ERROR: exp_id NOT FOUND\<close> is not
  printed, experiment 1 is announced, one real-time handle FIFO/80 and two
  standard handles are constructed, and, every call succeeding, its three
  threads are spawned, started and joined.
\<close>

theorem C10_unparsable_argument_runs_scenario_0:
  assumes "2 \<le> length argv" and "atoi os (argv ! 1) = 0"
    and "mlockall_ret os = 0" and "\<forall>k. create_ret os k = 0" and "\<forall>t. join_ret os t = 0"
  shows "stderr (trace (snd (main os argv))) = [] \<and>
         (''ERROR: exp_id NOT FOUND\<newline>'', []) \<notin> set (stdout (trace (snd (main os argv)))) \<and>
         take 1 (stdout (trace (snd (main os argv)))) =
           [(''Experiment 1: One CannyP3 APP (RT) and Two any-type APPs (NRT), All running on CPU=1\<newline>'', [])] \<and>
         map spec_of (constructed (trace (snd (main os argv)))) =
           [(RealTime, Some (80, SCHED_FIFO)), (Standard, None), (Standard, None)] \<and>
         map fst (spawned (trace (snd (main os argv)))) = [new_tid os 0, new_tid os 1, new_tid os 2] \<and>
         calls (trace (snd (main os argv))) =
           [Start_called 1, Start_called 2, Start_called 3,
            Join_called 1, Join_called 2, Join_called 3] \<and>
         fst (main os argv) = Exit 0"
proof -
  have sel: "selected os argv = 0"
    using assms(1,2) by (simp add: selected_def)
  have quiet: "stderr (trace (snd (main os argv))) = []"
    using assms(1) by (simp add: main_stderr)
  obtain es where tr: "trace (snd (main os argv)) =
       trace (lock_world argv) @
       [Printf ''Experiment 1: One CannyP3 APP (RT) and Two any-type APPs (NRT), All running on CPU=1\<newline>'' [],
        Constructed (AppX (AppTypeX 1 80 SCHED_FIFO)),
        Constructed (AppY (AppTypeY 2)),
        Constructed (AppY (AppTypeY 3))] @ es"
    and es: "list_all in_method es"
    using assms(3) sel by (rule main_scenario_0)
  from es have found: "(''ERROR: exp_id NOT FOUND\<newline>'', []) \<notin> set (stdout (trace (snd (main os argv))))"
    by (simp add: tr trace_lock_world stdout_append in_method_stdout)
  from es have mix: "take 1 (stdout (trace (snd (main os argv)))) =
           [(''Experiment 1: One CannyP3 APP (RT) and Two any-type APPs (NRT), All running on CPU=1\<newline>'', [])] \<and>
         map spec_of (constructed (trace (snd (main os argv)))) =
           [(RealTime, Some (80, SCHED_FIFO)), (Standard, None), (Standard, None)]"
    by (simp add: tr trace_lock_world stdout_append constructed_append in_method_constructed
        AppTypeX_def)
  have run: "map fst (spawned (trace (snd (main os argv)))) = [new_tid os 0, new_tid os 1, new_tid os 2] \<and>
         calls (trace (snd (main os argv))) =
           [Start_called 1, Start_called 2, Start_called 3,
            Join_called 1, Join_called 2, Join_called 3] \<and>
         fst (main os argv) = Exit 0"
    using assms
    by (simp add: prog_defs Let_def numeral_2_eq_2 cong: and_then_weak_cong let_weak_cong)
  from quiet found mix run show ?thesis
    by blast
qed

theorem C10_unparsable_argument_runs_scenario_0_witness:
  "2 \<le> length [''p3'', ''abc''] \<and> atoi os_ok ([''p3'', ''abc''] ! 1) = 0 \<and>
   mlockall_ret os_ok = 0 \<and> (\<forall>k. create_ret os_ok k = 0) \<and> (\<forall>t. join_ret os_ok t = 0) \<and>
   stderr (trace (snd (main os_ok [''p3'', ''abc'']))) = [] \<and>
   (''ERROR: exp_id NOT FOUND\<newline>'', []) \<notin> set (stdout (trace (snd (main os_ok [''p3'', ''abc''])))) \<and>
   map spec_of (constructed (trace (snd (main os_ok [''p3'', ''abc''])))) =
     [(RealTime, Some (80, SCHED_FIFO)), (Standard, None), (Standard, None)] \<and>
   map fst (spawned (trace (snd (main os_ok [''p3'', ''abc''])))) = [100, 101, 102] \<and>
   fst (main os_ok [''p3'', ''abc'']) = Exit 0"
proof -
  have a: "2 \<le> length [''p3'', ''abc'']"
    by simp
  have z: "atoi os_ok ([''p3'', ''abc''] ! 1) = 0"
    by (simp add: os_ok_def)
  have b: "mlockall_ret os_ok = 0" and c: "\<forall>k. create_ret os_ok k = 0"
    and d: "\<forall>t. join_ret os_ok t = 0"
    and t: "new_tid os_ok 0 = 100" "new_tid os_ok 1 = 101" "new_tid os_ok 2 = 102"
    by (simp_all add: os_ok_def)
  from C10_unparsable_argument_runs_scenario_0 [OF a z b c d] a z b c d show ?thesis
    unfolding t by blast
qed

end
